theory Spec2Isabelle
  imports
    Complex_Main
    "HOL-Library.Sublist"
    "HOL-Library.Char_ord"
    "HOL-Library.List_Lexorder"
    "HOL-Library.Product_Lexorder"
begin

section \<open>The relational store\<close>

text \<open>
  The four tables of \<^verbatim>\<open>initializeDatabase\<close> (users, batches, enrollments,
  daily_reports), each a list of rows in insertion order. Column names carry a one-letter
  prefix for their table, since the same column name occurs in several tables.
  Identifiers are integers, timestamps (\<^verbatim>\<open>CURRENT_TIMESTAMP\<close>) are readings of a
  clock that the caller of a handler supplies, dates and free text are strings, hours are
  numbers (the column is \<^verbatim>\<open>REAL\<close>; JavaScript numbers are read as real numbers here).
  A nullable column is an \<open>option\<close>.
\<close>

datatype role = Student | Teacher | Admin

datatype batch_status = Active | Upcoming | Completed

record user_row =
  u_id :: int
  u_username :: string
  u_email :: string
  u_password :: string
  u_full_name :: string
  u_role :: role
  u_created_at :: nat

record batch_row =
  b_id :: int
  b_name :: string
  b_instructor_id :: "int option"
  b_duration :: string
  b_start_date :: string
  b_status :: batch_status
  b_max_participants :: int
  b_created_at :: nat

record enrollment_row =
  e_id :: int
  e_user_id :: int
  e_batch_id :: int
  e_enrolled_at :: nat

record report_row =
  r_id :: int
  r_user_id :: int
  r_batch_id :: int
  r_report_date :: string
  r_tasks_completed :: string
  r_challenges :: "string option"
  r_hours_worked :: real
  r_notes :: "string option"
  r_created_at :: nat
  r_updated_at :: nat

record db =
  users :: "user_row list"
  batches :: "batch_row list"
  enrollments :: "enrollment_row list"
  daily_reports :: "report_row list"

text \<open>
  \<^verbatim>\<open>INTEGER PRIMARY KEY AUTOINCREMENT\<close>: a new row gets a rowid one larger than the
  largest in its table (1 in an empty table); no handler deletes rows.
\<close>

definition next_rowid :: "int list \<Rightarrow> int" where
  "next_rowid ids = fold max ids 0 + 1"

subsection \<open>Storage calls\<close>

text \<open>
  Every \<^verbatim>\<open>db.get\<close>, \<^verbatim>\<open>db.all\<close> and \<^verbatim>\<open>db.run\<close> hands its callback either an
  error (with a message) or a result. A storage call takes a \<open>fault\<close>: \<open>Some msg\<close>
  makes the storage layer fail that call with the message \<open>msg\<close> and leave the store as
  it was, \<open>None\<close> lets the statement run. \<open>Inl msg\<close> is the callback's \<^verbatim>\<open>err\<close>.
\<close>

type_synonym fault = "string option"

text \<open>\<^verbatim>\<open>String.prototype.includes\<close>: the pattern occurs somewhere in the text.\<close>

fun str_includes :: "string \<Rightarrow> string \<Rightarrow> bool" where
  "str_includes [] p = (p = [])"
| "str_includes (c # cs) p = (prefix p (c # cs) \<or> str_includes cs p)"

text \<open>\<^verbatim>\<open>SELECT * FROM batches WHERE id = ?\<close>\<close>

definition select_batch :: "fault \<Rightarrow> db \<Rightarrow> int \<Rightarrow> string + batch_row option" where
  "select_batch fault d batchId =
     (case fault of
        Some msg \<Rightarrow> Inl msg
      | None \<Rightarrow> Inr (find (\<lambda>b. b_id b = batchId) (batches d)))"

text \<open>\<^verbatim>\<open>SELECT COUNT(*) as count FROM enrollments WHERE batch_id = ?\<close>\<close>

definition count_enrollments :: "fault \<Rightarrow> db \<Rightarrow> int \<Rightarrow> string + nat" where
  "count_enrollments fault d batchId =
     (case fault of
        Some msg \<Rightarrow> Inl msg
      | None \<Rightarrow> Inr (length (filter (\<lambda>e. e_batch_id e = batchId) (enrollments d))))"

text \<open>
  \<^verbatim>\<open>INSERT INTO enrollments (user_id, batch_id) VALUES (?, ?)\<close> under the table's
  \<^verbatim>\<open>UNIQUE(user_id, batch_id)\<close>: the statement fails with SQLite's constraint message
  when the pair is already there.
\<close>

definition unique_enrollment_msg :: string where
  "unique_enrollment_msg =
     ''SQLITE_CONSTRAINT: UNIQUE constraint failed: enrollments.user_id, enrollments.batch_id''"

definition insert_enrollment :: "fault \<Rightarrow> nat \<Rightarrow> db \<Rightarrow> int \<Rightarrow> int \<Rightarrow> string + db" where
  "insert_enrollment fault now d userId batchId =
     (case fault of
        Some msg \<Rightarrow> Inl msg
      | None \<Rightarrow>
          if list_ex (\<lambda>e. e_user_id e = userId \<and> e_batch_id e = batchId) (enrollments d)
          then Inl unique_enrollment_msg
          else Inr (d\<lparr>enrollments := enrollments d @
                 [\<lparr>e_id = next_rowid (map e_id (enrollments d)), e_user_id = userId,
                   e_batch_id = batchId, e_enrolled_at = now\<rparr>]\<rparr>))"

section \<open>Requests and responses\<close>

text \<open>
  \<^verbatim>\<open>req.user\<close>, the payload of the verified token. A handler answers with
  \<^verbatim>\<open>res.status(s).json(body)\<close> (status 200 when no status is set), or an exception
  leaves its callback uncaught and no response is sent.
\<close>

record token_user =
  tok_id :: int
  tok_username :: string
  tok_role :: role

datatype 'a body = ErrorBody string | MessageBody string | Payload 'a

datatype 'a response = Json nat "'a body" | UncaughtTypeError

section \<open>Enrollment\<close>

text \<open>
  \<^verbatim>\<open>POST /api/batches/:batchId/enroll\<close>. The three storage calls are nested callbacks;
  \<open>f1\<close>, \<open>f2\<close>, \<open>f3\<close> are their faults. The second callback reads
  \<^verbatim>\<open>result.count\<close> without looking at \<^verbatim>\<open>err\<close>; on an error \<^verbatim>\<open>result\<close> is
  undefined and the read throws.
\<close>

definition enroll ::
  "fault \<Rightarrow> fault \<Rightarrow> fault \<Rightarrow> nat \<Rightarrow> db \<Rightarrow> token_user \<Rightarrow> int \<Rightarrow> db \<times> unit response" where
  "enroll f1 f2 f3 now d user batchId =
     (case select_batch f1 d batchId of
        Inl err \<Rightarrow> (d, Json 404 (ErrorBody ''Batch not found''))
      | Inr None \<Rightarrow> (d, Json 404 (ErrorBody ''Batch not found''))
      | Inr (Some batch) \<Rightarrow>
          (case count_enrollments f2 d batchId of
             Inl err \<Rightarrow> (d, UncaughtTypeError)
           | Inr count \<Rightarrow>
               if int count \<ge> b_max_participants batch
               then (d, Json 400 (ErrorBody ''Batch is full''))
               else
                 (case insert_enrollment f3 now d (tok_id user) batchId of
                    Inl msg \<Rightarrow>
                      if str_includes msg ''UNIQUE''
                      then (d, Json 400 (ErrorBody ''Already enrolled''))
                      else (d, Json 500 (ErrorBody ''Enrollment failed''))
                  | Inr d' \<Rightarrow> (d', Json 200 (MessageBody ''Enrolled successfully'')))))"

text \<open>The quantities the enrollment rules speak of.\<close>

definition batch_exists :: "db \<Rightarrow> int \<Rightarrow> bool" where
  "batch_exists d batchId = (find (\<lambda>b. b_id b = batchId) (batches d) \<noteq> None)"

definition max_participants_of :: "db \<Rightarrow> int \<Rightarrow> int" where
  "max_participants_of d batchId =
     (case find (\<lambda>b. b_id b = batchId) (batches d) of
        Some b \<Rightarrow> b_max_participants b
      | None \<Rightarrow> 0)"

definition current_count :: "db \<Rightarrow> int \<Rightarrow> nat" where
  "current_count d batchId = length (filter (\<lambda>e. e_batch_id e = batchId) (enrollments d))"

definition enrolled :: "db \<Rightarrow> int \<Rightarrow> int \<Rightarrow> bool" where
  "enrolled d userId batchId =
     list_ex (\<lambda>e. e_user_id e = userId \<and> e_batch_id e = batchId) (enrollments d)"


section \<open>Daily reports\<close>

text \<open>
  \<^verbatim>\<open>req.body\<close> of \<^verbatim>\<open>POST /api/reports\<close>. Each field is optional; a field that is there
  has the type of its column (a number for \<^verbatim>\<open>batch_id\<close> and \<^verbatim>\<open>hours_worked\<close>, text for
  the others). The handler's \<^verbatim>\<open>!x\<close> is true of an absent field, of the number 0 and of
  the empty string.
\<close>

record report_request =
  q_batch_id :: "int option"
  q_report_date :: "string option"
  q_tasks_completed :: "string option"
  q_challenges :: "string option"
  q_hours_worked :: "real option"
  q_notes :: "string option"

text \<open>\<^verbatim>\<open>SELECT * FROM enrollments WHERE user_id = ? AND batch_id = ?\<close>\<close>

definition select_enrollment :: "fault \<Rightarrow> db \<Rightarrow> int \<Rightarrow> int \<Rightarrow> string + enrollment_row option" where
  "select_enrollment fault d userId batchId =
     (case fault of
        Some msg \<Rightarrow> Inl msg
      | None \<Rightarrow>
          Inr (find (\<lambda>e. e_user_id e = userId \<and> e_batch_id e = batchId) (enrollments d)))"

text \<open>
  \<^verbatim>\<open>INSERT INTO daily_reports (...) VALUES (...) ON CONFLICT(user_id, batch_id, report_date)
  DO UPDATE SET tasks_completed = excluded.tasks_completed, challenges = excluded.challenges,
  hours_worked = excluded.hours_worked, notes = excluded.notes, updated_at = CURRENT_TIMESTAMP\<close>.
  A new row takes both timestamps from the column default.
\<close>

definition same_report_key :: "int \<Rightarrow> int \<Rightarrow> string \<Rightarrow> report_row \<Rightarrow> bool" where
  "same_report_key userId batchId reportDate r =
     (r_user_id r = userId \<and> r_batch_id r = batchId \<and> r_report_date r = reportDate)"

definition upsert_report ::
  "fault \<Rightarrow> nat \<Rightarrow> db \<Rightarrow> int \<Rightarrow> int \<Rightarrow> string \<Rightarrow> string \<Rightarrow> string option \<Rightarrow> real \<Rightarrow>
   string option \<Rightarrow> string + db" where
  "upsert_report fault now d userId batchId reportDate tasks challenges hours notes =
     (case fault of
        Some msg \<Rightarrow> Inl msg
      | None \<Rightarrow>
          if list_ex (same_report_key userId batchId reportDate) (daily_reports d)
          then Inr (d\<lparr>daily_reports :=
                 map (\<lambda>r. if same_report_key userId batchId reportDate r
                          then r\<lparr>r_tasks_completed := tasks, r_challenges := challenges,
                                 r_hours_worked := hours, r_notes := notes,
                                 r_updated_at := now\<rparr>
                          else r)
                     (daily_reports d)\<rparr>)
          else Inr (d\<lparr>daily_reports := daily_reports d @
                 [\<lparr>r_id = next_rowid (map r_id (daily_reports d)), r_user_id = userId,
                   r_batch_id = batchId, r_report_date = reportDate,
                   r_tasks_completed = tasks, r_challenges = challenges,
                   r_hours_worked = hours, r_notes = notes,
                   r_created_at = now, r_updated_at = now\<rparr>]\<rparr>))"

text \<open>
  \<^verbatim>\<open>POST /api/reports\<close>. \<open>f1\<close> and \<open>f2\<close> are the faults of the enrollment lookup and of
  the upsert. The success body's \<^verbatim>\<open>reportId\<close> (\<^verbatim>\<open>this.lastID\<close>) is left out of the
  model: nothing below reads it.
\<close>

definition submit_report ::
  "fault \<Rightarrow> fault \<Rightarrow> nat \<Rightarrow> db \<Rightarrow> token_user \<Rightarrow> report_request \<Rightarrow> db \<times> unit response" where
  "submit_report f1 f2 now d user req =
     (case (q_batch_id req, q_report_date req, q_tasks_completed req, q_hours_worked req) of
        (Some batch_id, Some report_date, Some tasks_completed, Some hours_worked) \<Rightarrow>
          if batch_id = 0 \<or> report_date = [] \<or> tasks_completed = [] \<or> hours_worked = 0
          then (d, Json 400 (ErrorBody ''Required fields missing''))
          else
            (case select_enrollment f1 d (tok_id user) batch_id of
               Inl err \<Rightarrow> (d, Json 403 (ErrorBody ''Not enrolled in this batch''))
             | Inr None \<Rightarrow> (d, Json 403 (ErrorBody ''Not enrolled in this batch''))
             | Inr (Some enrollment) \<Rightarrow>
                 (case upsert_report f2 now d (tok_id user) batch_id report_date
                         tasks_completed (q_challenges req) hours_worked (q_notes req) of
                    Inl err \<Rightarrow> (d, Json 500 (ErrorBody ''Failed to submit report''))
                  | Inr d' \<Rightarrow> (d', Json 200 (MessageBody ''Report submitted successfully''))))
      | _ \<Rightarrow> (d, Json 400 (ErrorBody ''Required fields missing'')))"

text \<open>
  The handler's first test, \<^verbatim>\<open>!batch_id || !report_date || !tasks_completed ||
  !hours_worked\<close>, as a predicate on the request.
\<close>

definition falsy_num :: "'a::zero option \<Rightarrow> bool" where
  "falsy_num x = (case x of None \<Rightarrow> True | Some v \<Rightarrow> v = 0)"

definition falsy_str :: "string option \<Rightarrow> bool" where
  "falsy_str x = (case x of None \<Rightarrow> True | Some v \<Rightarrow> v = [])"

definition required_fields_missing :: "report_request \<Rightarrow> bool" where
  "required_fields_missing req =
     (falsy_num (q_batch_id req) \<or> falsy_str (q_report_date req) \<or>
      falsy_str (q_tasks_completed req) \<or> falsy_num (q_hours_worked req))"

text \<open>The rows of the report ledger stored under a (user, batch, date) triple.\<close>

definition reports_for :: "db \<Rightarrow> int \<Rightarrow> int \<Rightarrow> string \<Rightarrow> report_row list" where
  "reports_for d userId batchId reportDate =
     filter (same_report_key userId batchId reportDate) (daily_reports d)"

definition report_key :: "report_row \<Rightarrow> int \<times> int \<times> string" where
  "report_key r = (r_user_id r, r_batch_id r, r_report_date r)"

text \<open>The table constraint \<^verbatim>\<open>UNIQUE(user_id, batch_id, report_date)\<close> as a predicate.\<close>

definition reports_unique :: "db \<Rightarrow> bool" where
  "reports_unique d = distinct (map report_key (daily_reports d))"

text \<open>Every stored report belongs to a (user, batch) pair with an enrollment row.\<close>

definition reports_enrolled :: "db \<Rightarrow> bool" where
  "reports_enrolled d =
     list_all (\<lambda>r. enrolled d (r_user_id r) (r_batch_id r)) (daily_reports d)"

text \<open>The table constraint \<^verbatim>\<open>UNIQUE(user_id, batch_id)\<close> of enrollments.\<close>

definition enrollments_unique :: "db \<Rightarrow> bool" where
  "enrollments_unique d =
     distinct (map (\<lambda>e. (e_user_id e, e_batch_id e)) (enrollments d))"

text \<open>The number of reports a user has stored for a batch.\<close>

definition report_count :: "db \<Rightarrow> int \<Rightarrow> int \<Rightarrow> nat" where
  "report_count d userId batchId =
     length (filter (\<lambda>r. r_user_id r = userId \<and> r_batch_id r = batchId) (daily_reports d))"



subsection \<open>Querying reports\<close>

text \<open>
  \<^verbatim>\<open>req.query\<close> of \<^verbatim>\<open>GET /api/reports\<close>: \<open>None\<close> is a parameter that is absent or
  empty; \<open>f_limit\<close> is \<^verbatim>\<open>parseInt(limit)\<close>, the default 100 being applied by the handler.
\<close>

record report_query =
  f_batch_id :: "int option"
  f_user_id :: "int option"
  f_start_date :: "string option"
  f_end_date :: "string option"
  f_limit :: "int option"

record report_view =
  v_report :: report_row
  v_user_name :: string
  v_username :: string
  v_batch_name :: string

text \<open>The \<^verbatim>\<open>WHERE\<close> clause the handler assembles, one conjunct per \<^verbatim>\<open>if\<close>.\<close>

definition report_filter :: "token_user \<Rightarrow> report_query \<Rightarrow> report_row \<Rightarrow> bool" where
  "report_filter user q r =
     ((if tok_role user = Student then r_user_id r = tok_id user else True) \<and>
      (case f_batch_id q of Some b \<Rightarrow> r_batch_id r = b | None \<Rightarrow> True) \<and>
      (case f_user_id q of
         Some u \<Rightarrow> (if tok_role user \<noteq> Student then r_user_id r = u else True)
       | None \<Rightarrow> True) \<and>
      (case f_start_date q of
         Some s \<Rightarrow> (if s = [] then True else r_report_date r \<ge> s)
       | None \<Rightarrow> True) \<and>
      (case f_end_date q of
         Some s \<Rightarrow> (if s = [] then True else r_report_date r \<le> s)
       | None \<Rightarrow> True))"

text \<open>\<^verbatim>\<open>LIMIT ?\<close>: a negative limit is no limit.\<close>

definition sql_limit :: "int \<Rightarrow> 'a list \<Rightarrow> 'a list" where
  "sql_limit n xs = (if n < 0 then xs else take (nat n) xs)"

text \<open>
  The joined, filtered, ordered and limited rows:
  \<^verbatim>\<open>FROM daily_reports r INNER JOIN users u ON r.user_id = u.id
  INNER JOIN batches b ON r.batch_id = b.id WHERE ...
  ORDER BY r.report_date DESC, r.created_at DESC LIMIT ?\<close>.
  Text compares bytewise, as lists of characters do; rows equal in both sort keys come in
  an order SQL does not fix.
\<close>

definition join_report :: "db \<Rightarrow> report_row \<Rightarrow> report_view list" where
  "join_report d r =
     concat (map (\<lambda>u.
         map (\<lambda>b. \<lparr>v_report = r, v_user_name = u_full_name u,
                    v_username = u_username u, v_batch_name = b_name b\<rparr>)
             (filter (\<lambda>b. b_id b = r_batch_id r) (batches d)))
       (filter (\<lambda>u. u_id u = r_user_id r) (users d)))"

definition select_reports ::
  "fault \<Rightarrow> db \<Rightarrow> token_user \<Rightarrow> report_query \<Rightarrow> string + report_view list" where
  "select_reports fault d user q =
     (case fault of
        Some msg \<Rightarrow> Inl msg
      | None \<Rightarrow>
          Inr (sql_limit (case f_limit q of Some n \<Rightarrow> n | None \<Rightarrow> 100)
            (rev (sort_key (\<lambda>v. (r_report_date (v_report v), r_created_at (v_report v)))
              (concat (map (join_report d)
                 (filter (report_filter user q) (daily_reports d))))))))"

text \<open>\<^verbatim>\<open>GET /api/reports\<close>\<close>

definition get_reports ::
  "fault \<Rightarrow> db \<Rightarrow> token_user \<Rightarrow> report_query \<Rightarrow> (report_view list) response" where
  "get_reports fault d user q =
     (case select_reports fault d user q of
        Inl err \<Rightarrow> Json 500 (ErrorBody ''Failed to fetch reports'')
      | Inr reports \<Rightarrow> Json 200 (Payload reports))"

text \<open>The reports a response carries (none when it is not a list of reports).\<close>

fun reports_of :: "(report_view list) response \<Rightarrow> report_view list" where
  "reports_of (Json s (Payload rs)) = rs"
| "reports_of _ = []"

section \<open>Requests that write the ledgers\<close>

text \<open>
  \<^verbatim>\<open>enroll\<close> is the only handler that writes the enrollments table and
  \<^verbatim>\<open>submit_report\<close> the only one that writes daily_reports; no handler deletes from
  either. The other writes (registration, batch creation, the seeding at start-up) go to
  the users and batches tables only; \<open>OtherWrite\<close> stands for any of them and may leave
  any rows in these two tables. A run is a sequence of such requests, each with its
  faults, its clock reading and its caller, applied to a store. An uncaught exception ends
  the server process; the store is the database file and stays as the request left it.
\<close>

datatype request =
  Enroll fault fault fault nat token_user int
| SubmitReport fault fault nat token_user report_request
| OtherWrite "user_row list" "batch_row list"

fun handle :: "db \<Rightarrow> request \<Rightarrow> db" where
  "handle d (Enroll f1 f2 f3 now user batchId) = fst (enroll f1 f2 f3 now d user batchId)"
| "handle d (SubmitReport f1 f2 now user req) = fst (submit_report f1 f2 now d user req)"
| "handle d (OtherWrite us bs) = d\<lparr>users := us, batches := bs\<rparr>"

definition run :: "db \<Rightarrow> request list \<Rightarrow> db" where
  "run d reqs = foldl handle d reqs"


section \<open>Derived statistics\<close>

subsection \<open>Consistency of a student's reporting\<close>

text \<open>
  \<^verbatim>\<open>Number.prototype.toFixed(0)\<close>: the integer nearest to the number, the one larger in
  magnitude when two are equally near. The string it returns is identified with that
  integer (the sign of a zero is not kept).
\<close>

definition toFixed0 :: "real \<Rightarrow> int" where
  "toFixed0 x = (if x < 0 then - \<lfloor>- x + 1 / 2\<rfloor> else \<lfloor>x + 1 / 2\<rfloor>)"

text \<open>
  What \<^verbatim>\<open>calculateConsistency\<close> returns: the number 0, or the string of
  \<^verbatim>\<open>toFixed(0)\<close>, which is \<^verbatim>\<open>"NaN"\<close> for a NaN.
\<close>

datatype consistency_value = Number0 | ToFixed int | ToFixedNaN

text \<open>
  \<^verbatim>\<open>calculateConsistency(totalReports, firstReport, lastReport)\<close>. The constructor
  \<^verbatim>\<open>new Date(s)\<close> is a parameter: it gives the time value of \<open>s\<close> in milliseconds, or
  \<open>None\<close> for an invalid date, whose NaN goes through to the result. A division by a
  \<^verbatim>\<open>daysDiff\<close> of 0 gives Infinity (capped to 100 by \<^verbatim>\<open>Math.min\<close>) or, for 0 / 0, NaN.
\<close>

definition calculateConsistency ::
  "(string \<Rightarrow> int option) \<Rightarrow> nat \<Rightarrow> string option \<Rightarrow> string option \<Rightarrow> consistency_value" where
  "calculateConsistency Date totalReports firstReport lastReport =
     (case (firstReport, lastReport) of
        (Some f, Some l) \<Rightarrow>
          if f = [] \<or> l = [] then Number0
          else
            (case (Date f, Date l) of
               (Some t1, Some t2) \<Rightarrow>
                 (let daysDiff = \<lfloor>real_of_int (t2 - t1) / (1000 * 60 * 60 * 24)\<rfloor> + 1
                  in if daysDiff = 0
                     then (if totalReports = 0 then ToFixedNaN else ToFixed 100)
                     else ToFixed (toFixed0
                            (min (real totalReports / real_of_int daysDiff * 100) 100)))
             | _ \<Rightarrow> ToFixedNaN)
      | _ \<Rightarrow> Number0)"

text \<open>The number a returned value stands for.\<close>

fun consistency_number :: "consistency_value \<Rightarrow> real option" where
  "consistency_number Number0 = Some 0"
| "consistency_number (ToFixed n) = Some (real_of_int n)"
| "consistency_number ToFixedNaN = None"

text \<open>
  The part of \<^verbatim>\<open>analyzeStudentProgress\<close> that feeds the consistency:
  \<^verbatim>\<open>SELECT COUNT(*) as total_reports, ..., MIN(report_date) as first_report,
  MAX(report_date) as last_report FROM daily_reports WHERE user_id = ?\<close>.
\<close>

record progress_stats =
  total_reports :: nat
  first_report :: "string option"
  last_report :: "string option"

definition select_progress_stats :: "fault \<Rightarrow> db \<Rightarrow> int \<Rightarrow> string + progress_stats" where
  "select_progress_stats fault d userId =
     (case fault of
        Some msg \<Rightarrow> Inl msg
      | None \<Rightarrow>
          (let ds = map r_report_date (filter (\<lambda>r. r_user_id r = userId) (daily_reports d))
           in Inr \<lparr>total_reports = length ds,
                   first_report = (case ds of [] \<Rightarrow> None | x # xs \<Rightarrow> Some (fold min xs x)),
                   last_report = (case ds of [] \<Rightarrow> None | x # xs \<Rightarrow> Some (fold max xs x))\<rparr>))"

definition progress_consistency ::
  "(string \<Rightarrow> int option) \<Rightarrow> fault \<Rightarrow> db \<Rightarrow> int \<Rightarrow> string + consistency_value" where
  "progress_consistency Date fault d userId =
     (case select_progress_stats fault d userId of
        Inl err \<Rightarrow> Inl err
      | Inr stats \<Rightarrow>
          Inr (calculateConsistency Date (total_reports stats) (first_report stats)
                 (last_report stats)))"

subsection \<open>Calendar dates\<close>

text \<open>
  The time value \<^verbatim>\<open>new Date(s)\<close> has for a date-only string \<^verbatim>\<open>YYYY-MM-DD\<close> naming a
  day of the calendar: midnight UTC of that day, in milliseconds since 1970-01-01. Other
  strings are outside this function (\<open>None\<close>).
\<close>

definition digit :: "char \<Rightarrow> int option" where
  "digit c =
     (if c = CHR ''0'' then Some 0 else if c = CHR ''1'' then Some 1
      else if c = CHR ''2'' then Some 2 else if c = CHR ''3'' then Some 3
      else if c = CHR ''4'' then Some 4 else if c = CHR ''5'' then Some 5
      else if c = CHR ''6'' then Some 6 else if c = CHR ''7'' then Some 7
      else if c = CHR ''8'' then Some 8 else if c = CHR ''9'' then Some 9
      else None)"

fun digits :: "int \<Rightarrow> string \<Rightarrow> int option" where
  "digits acc [] = Some acc"
| "digits acc (c # cs) =
     (case digit c of None \<Rightarrow> None | Some v \<Rightarrow> digits (acc * 10 + v) cs)"

definition leap_year :: "int \<Rightarrow> bool" where
  "leap_year y = (y mod 4 = 0 \<and> (y mod 100 \<noteq> 0 \<or> y mod 400 = 0))"

definition days_in_month :: "int \<Rightarrow> int \<Rightarrow> int" where
  "days_in_month y m =
     (if m = 2 then (if leap_year y then 29 else 28)
      else if m = 4 \<or> m = 6 \<or> m = 9 \<or> m = 11 then 30
      else 31)"

text \<open>The number of days from 1970-01-01 to a day of the proleptic Gregorian calendar.\<close>

definition days_from_civil :: "int \<Rightarrow> int \<Rightarrow> int \<Rightarrow> int" where
  "days_from_civil y m dd =
     (let y' = (if m \<le> 2 then y - 1 else y);
          era = y' div 400;
          yoe = y' - era * 400;
          doy = (153 * (if m > 2 then m - 3 else m + 9) + 2) div 5 + dd - 1;
          doe = yoe * 365 + yoe div 4 - yoe div 100 + doy
      in era * 146097 + doe - 719468)"

definition iso_date_ms :: "string \<Rightarrow> int option" where
  "iso_date_ms s =
     (if length s = 10 \<and> s ! 4 = CHR ''-'' \<and> s ! 7 = CHR ''-''
      then
        (case (digits 0 (take 4 s), digits 0 (take 2 (drop 5 s)), digits 0 (drop 8 s)) of
           (Some y, Some m, Some dd) \<Rightarrow>
             if 1 \<le> m \<and> m \<le> 12 \<and> 1 \<le> dd \<and> dd \<le> days_in_month y m
             then Some (days_from_civil y m dd * (1000 * 60 * 60 * 24))
             else None
         | _ \<Rightarrow> None)
      else None)"

subsection \<open>Completion prediction\<close>








subsection \<open>Class insights\<close>

text \<open>
  \<^verbatim>\<open>SELECT u.id, u.full_name, COUNT(r.id) as total_reports, AVG(r.hours_worked) as avg_hours,
  MAX(r.report_date) as last_report FROM users u INNER JOIN enrollments e ON u.id = e.user_id
  LEFT JOIN daily_reports r ON u.id = r.user_id AND r.batch_id = e.batch_id
  WHERE e.batch_id = ? GROUP BY u.id\<close>.
  A user has one group when some enrollment joins; \<^verbatim>\<open>COUNT(r.id)\<close> counts the joined
  (enrollment, report) pairs of the group. The groups come in the order of the users
  table (SQL does not fix their order). The average feeds only the formatted
  \<^verbatim>\<open>averageHours\<close> field and is left out.
\<close>

record student_stats =
  s_id :: int
  s_full_name :: string
  s_total_reports :: nat
  s_last_report :: "string option"

definition select_class_stats :: "fault \<Rightarrow> db \<Rightarrow> int \<Rightarrow> string + student_stats list" where
  "select_class_stats fault d batchId =
     (case fault of
        Some msg \<Rightarrow> Inl msg
      | None \<Rightarrow>
          Inr (concat (map (\<lambda>u.
            (let es = filter (\<lambda>e. e_user_id e = u_id u \<and> e_batch_id e = batchId)
                             (enrollments d);
                 rs = filter (\<lambda>r. r_user_id r = u_id u \<and> r_batch_id r = batchId)
                             (daily_reports d)
             in if es = [] then []
                else [\<lparr>s_id = u_id u, s_full_name = u_full_name u,
                        s_total_reports = length es * length rs,
                        s_last_report =
                          (case map r_report_date rs of
                             [] \<Rightarrow> None
                           | x # xs \<Rightarrow> Some (fold max xs x))\<rparr>]))
            (users d))))"

record insight =
  studentId :: int
  studentName :: string
  totalReports :: nat
  lastReportDate :: "string option"
  engagementLevel :: string
  needsAttention :: bool

definition student_insight :: "student_stats \<Rightarrow> insight" where
  "student_insight student =
     \<lparr>studentId = s_id student,
      studentName = s_full_name student,
      totalReports = s_total_reports student,
      lastReportDate = s_last_report student,
      engagementLevel =
        (if s_total_reports student \<ge> 15 then ''High''
         else if s_total_reports student \<ge> 10 then ''Medium'' else ''Low''),
      needsAttention = (s_total_reports student < 5)\<rparr>"

record class_report =
  ci_batchId :: int
  ci_totalStudents :: nat
  ci_highEngagement :: nat
  ci_needsAttention :: nat
  ci_students :: "insight list"

text \<open>
  \<^verbatim>\<open>GET /api/ai/class-insights/:batchId\<close>, behind
  \<^verbatim>\<open>authorizeRole('teacher', 'admin')\<close>.
\<close>

definition class_insights :: "fault \<Rightarrow> db \<Rightarrow> token_user \<Rightarrow> int \<Rightarrow> class_report response" where
  "class_insights fault d user batchId =
     (if \<not> (tok_role user = Teacher \<or> tok_role user = Admin)
      then Json 403 (ErrorBody ''Insufficient permissions'')
      else
        (case select_class_stats fault d batchId of
           Inl err \<Rightarrow> Json 500 (ErrorBody ''Failed to get class insights'')
         | Inr students \<Rightarrow>
             (let insights = map student_insight students
              in Json 200 (Payload
                   \<lparr>ci_batchId = batchId,
                    ci_totalStudents = length insights,
                    ci_highEngagement =
                      length (filter (\<lambda>s. engagementLevel s = ''High'') insights),
                    ci_needsAttention = length (filter needsAttention insights),
                    ci_students = insights\<rparr>))))"

text \<open>The per-student entries a response carries.\<close>

fun insights_of :: "class_report response \<Rightarrow> insight list" where
  "insights_of (Json s (Payload c)) = ci_students c"
| "insights_of _ = []"

section \<open>Sample data\<close>

text \<open>
  A small store for concrete runs: the seeded admin, two students and a teacher, and one
  batch with room for two participants.
\<close>

definition admin_row :: user_row where
  "admin_row = \<lparr>u_id = 1, u_username = ''admin'', u_email = ''admin@training.com'',
     u_password = ''$2b$10$hash'', u_full_name = ''System Admin'', u_role = Admin,
     u_created_at = 0\<rparr>"

definition alice_row :: user_row where
  "alice_row = \<lparr>u_id = 2, u_username = ''alice'', u_email = ''alice@example.com'',
     u_password = ''$2b$10$hash'', u_full_name = ''Alice'', u_role = Student,
     u_created_at = 1\<rparr>"

definition bob_row :: user_row where
  "bob_row = \<lparr>u_id = 3, u_username = ''bob'', u_email = ''bob@example.com'',
     u_password = ''$2b$10$hash'', u_full_name = ''Bob'', u_role = Student,
     u_created_at = 2\<rparr>"

definition carol_row :: user_row where
  "carol_row = \<lparr>u_id = 4, u_username = ''carol'', u_email = ''carol@example.com'',
     u_password = ''$2b$10$hash'', u_full_name = ''Carol'', u_role = Teacher,
     u_created_at = 3\<rparr>"

definition alice :: token_user where
  "alice = \<lparr>tok_id = 2, tok_username = ''alice'', tok_role = Student\<rparr>"

definition bob :: token_user where
  "bob = \<lparr>tok_id = 3, tok_username = ''bob'', tok_role = Student\<rparr>"

definition carol :: token_user where
  "carol = \<lparr>tok_id = 4, tok_username = ''carol'', tok_role = Teacher\<rparr>"

definition small_batch :: batch_row where
  "small_batch = \<lparr>b_id = 1, b_name = ''Web Development Fundamentals'',
     b_instructor_id = Some 1, b_duration = ''8 weeks'', b_start_date = ''2026-01-15'',
     b_status = Active, b_max_participants = 2, b_created_at = 0\<rparr>"

definition empty_ledgers :: db where
  "empty_ledgers = \<lparr>users = [admin_row, alice_row, bob_row, carol_row],
     batches = [small_batch], enrollments = [], daily_reports = []\<rparr>"

definition alice_enrollment :: enrollment_row where
  "alice_enrollment = \<lparr>e_id = 1, e_user_id = 2, e_batch_id = 1, e_enrolled_at = 10\<rparr>"

definition bob_enrollment :: enrollment_row where
  "bob_enrollment = \<lparr>e_id = 2, e_user_id = 3, e_batch_id = 1, e_enrolled_at = 11\<rparr>"

text \<open>Alice enrolled; then Bob as well, which fills the batch.\<close>

definition one_enrolled :: db where
  "one_enrolled = empty_ledgers\<lparr>enrollments := [alice_enrollment]\<rparr>"

definition batch_filled :: db where
  "batch_filled = empty_ledgers\<lparr>enrollments := [alice_enrollment, bob_enrollment]\<rparr>"

definition first_report_req :: report_request where
  "first_report_req = \<lparr>q_batch_id = Some 1, q_report_date = Some ''2026-01-16'',
     q_tasks_completed = Some ''Read chapter 1'', q_challenges = None,
     q_hours_worked = Some 4, q_notes = None\<rparr>"

definition second_report_req :: report_request where
  "second_report_req = \<lparr>q_batch_id = Some 1, q_report_date = Some ''2026-01-16'',
     q_tasks_completed = Some ''Read chapters 1 and 2'',
     q_challenges = Some ''Closures'', q_hours_worked = Some (13 / 2),
     q_notes = Some ''resubmitted''\<rparr>"

text \<open>One report each of Alice and of Bob, and a query that asks for Bob's reports.\<close>

definition alice_report :: report_row where
  "alice_report = \<lparr>r_id = 1, r_user_id = 2, r_batch_id = 1, r_report_date = ''2026-01-16'',
     r_tasks_completed = ''Read chapter 1'', r_challenges = None, r_hours_worked = 4,
     r_notes = None, r_created_at = 20, r_updated_at = 20\<rparr>"

definition bob_report :: report_row where
  "bob_report = \<lparr>r_id = 2, r_user_id = 3, r_batch_id = 1, r_report_date = ''2026-01-17'',
     r_tasks_completed = ''Exercises'', r_challenges = Some ''Promises'',
     r_hours_worked = 6, r_notes = None, r_created_at = 25, r_updated_at = 25\<rparr>"

definition with_reports :: db where
  "with_reports = batch_filled\<lparr>daily_reports := [alice_report, bob_report]\<rparr>"

definition bobs_reports_query :: report_query where
  "bobs_reports_query = \<lparr>f_batch_id = None, f_user_id = Some 3, f_start_date = None,
     f_end_date = None, f_limit = None\<rparr>"


section \<open>Properties of the handlers\<close>

subsection \<open>Effects of the two writing handlers\<close>

lemma unique_msg_includes: "str_includes unique_enrollment_msg ''UNIQUE''"
  by (simp add: unique_enrollment_msg_def)

lemma submit_report_missing:
  "required_fields_missing req \<Longrightarrow>
   submit_report f1 f2 now d user req = (d, Json 400 (ErrorBody ''Required fields missing''))"
  by (auto simp: required_fields_missing_def falsy_num_def falsy_str_def submit_report_def
      split: option.splits)

lemma submit_report_present:
  "\<not> required_fields_missing req \<Longrightarrow>
   \<exists>b dt t h. q_batch_id req = Some b \<and> q_report_date req = Some dt \<and>
     q_tasks_completed req = Some t \<and> q_hours_worked req = Some h \<and>
     b \<noteq> 0 \<and> dt \<noteq> [] \<and> t \<noteq> [] \<and> h \<noteq> 0 \<and>
     submit_report f1 f2 now d user req =
       (case select_enrollment f1 d (tok_id user) b of
          Inl err \<Rightarrow> (d, Json 403 (ErrorBody ''Not enrolled in this batch''))
        | Inr None \<Rightarrow> (d, Json 403 (ErrorBody ''Not enrolled in this batch''))
        | Inr (Some enrollment) \<Rightarrow>
            (case upsert_report f2 now d (tok_id user) b dt t (q_challenges req) h (q_notes req) of
               Inl err \<Rightarrow> (d, Json 500 (ErrorBody ''Failed to submit report''))
             | Inr d' \<Rightarrow> (d', Json 200 (MessageBody ''Report submitted successfully''))))"
  by (auto simp: required_fields_missing_def falsy_num_def falsy_str_def submit_report_def
      split: option.splits)

lemma select_enrollment_None:
  "select_enrollment None d u b = Inr None \<longleftrightarrow> \<not> enrolled d u b"
  by (auto simp: select_enrollment_def enrolled_def find_None_iff list_ex_iff)

lemma select_enrollment_cases:
  "select_enrollment f d u b = Inr (Some e) \<Longrightarrow> enrolled d u b"
  by (auto simp: select_enrollment_def enrolled_def list_ex_iff split: option.splits
      dest!: find_Some_iff[THEN iffD1] intro: nth_mem)

text \<open>What a submit-report request can do to the store.\<close>

lemma submit_report_effect:
  "fst (submit_report f1 f2 now d user req) = d \<or>
   (\<exists>b dt t h. q_batch_id req = Some b \<and> q_report_date req = Some dt \<and>
      q_tasks_completed req = Some t \<and> q_hours_worked req = Some h \<and> h \<noteq> 0 \<and>
      enrolled d (tok_id user) b \<and>
      upsert_report None now d (tok_id user) b dt t (q_challenges req) h (q_notes req)
        = Inr (fst (submit_report f1 f2 now d user req)))"
proof (cases "required_fields_missing req")
  case True
  then show ?thesis by (simp add: submit_report_missing)
next
  case False
  from submit_report_present[OF False, where d = d and user = user and now = now and ?f1.0 = f1 and ?f2.0 = f2]
  obtain b dt t h where f: "q_batch_id req = Some b" "q_report_date req = Some dt"
     "q_tasks_completed req = Some t" "q_hours_worked req = Some h" "h \<noteq> 0"
    and eq: "submit_report f1 f2 now d user req =
       (case select_enrollment f1 d (tok_id user) b of
          Inl err \<Rightarrow> (d, Json 403 (ErrorBody ''Not enrolled in this batch''))
        | Inr None \<Rightarrow> (d, Json 403 (ErrorBody ''Not enrolled in this batch''))
        | Inr (Some enrollment) \<Rightarrow>
            (case upsert_report f2 now d (tok_id user) b dt t (q_challenges req) h (q_notes req) of
               Inl err \<Rightarrow> (d, Json 500 (ErrorBody ''Failed to submit report''))
             | Inr d' \<Rightarrow> (d', Json 200 (MessageBody ''Report submitted successfully''))))"
    by blast
  show ?thesis
  proof (cases "select_enrollment f1 d (tok_id user) b")
    case (Inl a)
    then show ?thesis using eq by simp
  next
    case (Inr eo)
    show ?thesis
    proof (cases eo)
      case None
      then show ?thesis using eq Inr by simp
    next
      case (Some e)
      then have en: "enrolled d (tok_id user) b"
        using Inr select_enrollment_cases by blast
      show ?thesis
      proof (cases f2)
        case None
        then show ?thesis using eq Inr Some f en
          by (auto simp: upsert_report_def)
      next
        case (Some m)
        then show ?thesis using eq Inr \<open>eo = Some e\<close>
          by (simp add: upsert_report_def)
      qed
    qed
  qed
qed

lemma enroll_effect:
  "fst (enroll f1 f2 f3 now d user batchId) = d \<or>
   (\<exists>e. fst (enroll f1 f2 f3 now d user batchId) = d\<lparr>enrollments := enrollments d @ [e]\<rparr>)"
  by (auto simp: enroll_def select_batch_def count_enrollments_def insert_enrollment_def
      split: option.splits sum.splits if_splits)

subsection \<open>The upsert\<close>

lemma distinct_map_filter_le1:
  "distinct (map f xs) \<Longrightarrow> length (filter (\<lambda>x. f x = k) xs) \<le> Suc 0"
proof (induction xs)
  case Nil
  then show ?case by simp
next
  case (Cons x xs)
  show ?case
  proof (cases "f x = k")
    case True
    with Cons.prems have "k \<notin> f ` set xs" by auto
    then have "filter (\<lambda>x. f x = k) xs = []"
      by (auto simp: filter_empty_conv)
    with True show ?thesis by simp
  next
    case False
    with Cons show ?thesis by simp
  qed
qed

lemma same_report_key_iff: "same_report_key u b dt r \<longleftrightarrow> report_key r = (u, b, dt)"
  by (auto simp: same_report_key_def report_key_def)

lemma reports_for_le1:
  "reports_unique d \<Longrightarrow> length (reports_for d u b dt) \<le> Suc 0"
  unfolding reports_unique_def reports_for_def same_report_key_iff [abs_def]
  by (rule distinct_map_filter_le1)

lemma upsert_report_update:
  assumes "list_ex (same_report_key u b dt) (daily_reports d)"
  shows "upsert_report None now d u b dt t c h n =
     Inr (d\<lparr>daily_reports :=
            map (\<lambda>r. if same_report_key u b dt r
                     then r\<lparr>r_tasks_completed := t, r_challenges := c, r_hours_worked := h,
                            r_notes := n, r_updated_at := now\<rparr>
                     else r) (daily_reports d)\<rparr>)"
  using assms by (simp add: upsert_report_def)

lemma upsert_report_insert:
  assumes "\<not> list_ex (same_report_key u b dt) (daily_reports d)"
  shows "upsert_report None now d u b dt t c h n =
     Inr (d\<lparr>daily_reports := daily_reports d @
            [\<lparr>r_id = next_rowid (map r_id (daily_reports d)), r_user_id = u,
              r_batch_id = b, r_report_date = dt, r_tasks_completed = t, r_challenges = c,
              r_hours_worked = h, r_notes = n, r_created_at = now, r_updated_at = now\<rparr>]\<rparr>)"
  using assms by (simp add: upsert_report_def)

lemma upsert_report_keys:
  assumes "upsert_report None now d u b dt t c h n = Inr d'"
  shows "map report_key (daily_reports d') =
     (if list_ex (same_report_key u b dt) (daily_reports d)
      then map report_key (daily_reports d)
      else map report_key (daily_reports d) @ [(u, b, dt)])"
proof (cases "list_ex (same_report_key u b dt) (daily_reports d)")
  case True
  have "map report_key (map (\<lambda>r. if same_report_key u b dt r
                     then r\<lparr>r_tasks_completed := t, r_challenges := c, r_hours_worked := h,
                            r_notes := n, r_updated_at := now\<rparr>
                     else r) rs) = map report_key rs" for rs
    by (induction rs) (auto simp: report_key_def)
  with True assms show ?thesis by (auto simp: upsert_report_update)
next
  case False
  with assms show ?thesis by (auto simp: upsert_report_insert report_key_def)
qed

lemma upsert_report_unique:
  assumes "reports_unique d" and "upsert_report None now d u b dt t c h n = Inr d'"
  shows "reports_unique d'"
proof -
  have "\<not> list_ex (same_report_key u b dt) (daily_reports d) \<Longrightarrow>
        (u, b, dt) \<notin> set (map report_key (daily_reports d))"
    by (auto simp: list_ex_iff same_report_key_iff)
  with assms(1) upsert_report_keys[OF assms(2)] show ?thesis
    by (auto simp: reports_unique_def)
qed

lemma upsert_report_others:
  assumes "upsert_report None now d u b dt t c h n = Inr d'"
  shows "enrollments d' = enrollments d \<and> users d' = users d \<and> batches d' = batches d"
  using assms by (auto simp: upsert_report_def split: if_splits)

lemma upsert_report_enrolled:
  assumes "reports_enrolled d" and "enrolled d u b"
    and "upsert_report None now d u b dt t c h n = Inr d'"
  shows "reports_enrolled d'"
  using assms
  by (auto simp: upsert_report_def reports_enrolled_def enrolled_def list_all_iff
      split: if_splits)


lemma upsert_report_rows:
  assumes uniq: "reports_unique d"
    and up: "upsert_report None now d u b dt t c h n = Inr d'"
  shows "\<exists>row. reports_for d' u b dt = [row] \<and> r_tasks_completed row = t \<and>
     r_challenges row = c \<and> r_hours_worked row = h \<and> r_notes row = n \<and>
     r_updated_at row = now \<and>
     (case reports_for d u b dt of
        [] \<Rightarrow> r_created_at row = now
      | old # rest \<Rightarrow> r_created_at row = r_created_at old \<and> r_id row = r_id old)"
proof (cases "list_ex (same_report_key u b dt) (daily_reports d)")
  case True
  then have ne: "reports_for d u b dt \<noteq> []"
    by (auto simp: reports_for_def filter_empty_conv list_ex_iff)
  with reports_for_le1[OF uniq, of u b dt] obtain old where old: "reports_for d u b dt = [old]"
    by (cases "reports_for d u b dt") auto
  let ?g = "\<lambda>r. if same_report_key u b dt r
                     then r\<lparr>r_tasks_completed := t, r_challenges := c, r_hours_worked := h,
                            r_notes := n, r_updated_at := now\<rparr>
                     else r"
  have key: "same_report_key u b dt (?g r) = same_report_key u b dt r" for r
    by (simp add: same_report_key_def)
  have "filter (same_report_key u b dt) (map ?g rs) = map ?g (filter (same_report_key u b dt) rs)" for rs
    by (induction rs) (simp_all add: same_report_key_def)
  note flt = this
  have d': "d' = d\<lparr>daily_reports := map ?g (daily_reports d)\<rparr>"
    using up True by (simp add: upsert_report_update)
  have "reports_for d' u b dt = map ?g (reports_for d u b dt)"
    unfolding d' reports_for_def by (simp add: flt)
  moreover have "same_report_key u b dt old"
    using old by (metis filter_eq_Cons_iff reports_for_def)
  ultimately show ?thesis using old by simp
next
  case False
  then have "reports_for d u b dt = []"
    by (auto simp: reports_for_def filter_empty_conv list_ex_iff)
  with False up show ?thesis
    by (auto simp: upsert_report_insert reports_for_def same_report_key_def)
qed

subsection \<open>Invariants of runs\<close>

lemma handle_unique: "reports_unique d \<Longrightarrow> reports_unique (handle d rq)"
proof (cases rq)
  case (Enroll f1 f2 f3 now user batchId)
  assume u: "reports_unique d"
  from enroll_effect[of f1 f2 f3 now d user batchId] u Enroll show ?thesis
    by (auto simp: reports_unique_def)
next
  case (SubmitReport f1 f2 now user req)
  assume u: "reports_unique d"
  from submit_report_effect[of f1 f2 now d user req] u SubmitReport show ?thesis
    by (auto dest: upsert_report_unique)
next
  case (OtherWrite us bs)
  assume "reports_unique d"
  with OtherWrite show ?thesis by (simp add: reports_unique_def)
qed

lemma handle_enrolled: "reports_enrolled d \<Longrightarrow> reports_enrolled (handle d rq)"
proof (cases rq)
  case (Enroll f1 f2 f3 now user batchId)
  assume u: "reports_enrolled d"
  from enroll_effect[of f1 f2 f3 now d user batchId] u Enroll show ?thesis
    by (auto simp: reports_enrolled_def list_all_iff enrolled_def list_ex_iff)
next
  case (SubmitReport f1 f2 now user req)
  assume u: "reports_enrolled d"
  from submit_report_effect[of f1 f2 now d user req] u SubmitReport show ?thesis
    by (auto dest: upsert_report_enrolled)
next
  case (OtherWrite us bs)
  assume "reports_enrolled d"
  with OtherWrite show ?thesis by (simp add: reports_enrolled_def enrolled_def)
qed


lemma run_unique: "reports_unique d \<Longrightarrow> reports_unique (run d reqs)"
  unfolding run_def by (induction reqs arbitrary: d) (simp_all add: handle_unique)

lemma run_enrolled: "reports_enrolled d \<Longrightarrow> reports_enrolled (run d reqs)"
  unfolding run_def by (induction reqs arbitrary: d) (simp_all add: handle_enrolled)


lemma submit_report_stored:
  assumes "\<not> required_fields_missing req" and "q_batch_id req = Some b"
    and "q_report_date req = Some dt" and "enrolled d (tok_id user) b"
  shows "\<exists>t h d'. q_tasks_completed req = Some t \<and> q_hours_worked req = Some h \<and>
     upsert_report None now d (tok_id user) b dt t (q_challenges req) h (q_notes req) = Inr d' \<and>
     submit_report None None now d user req =
       (d', Json 200 (MessageBody ''Report submitted successfully''))"
proof -
  from assms(4) obtain e where e: "select_enrollment None d (tok_id user) b = Inr (Some e)"
    using select_enrollment_None[of d "tok_id user" b]
    by (cases "select_enrollment None d (tok_id user) b")
       (auto simp: select_enrollment_def)
  from submit_report_present[OF assms(1), where d = d and user = user and now = now
      and ?f1.0 = None and ?f2.0 = None] assms(2,3) e
  show ?thesis
    by (auto simp: upsert_report_def)
qed

section \<open>Enrollment checks\<close>

text \<open>
  Claim C1. When no storage call fails, an enroll request is answered by the first rule
  that applies: 404 \<^verbatim>\<open>Batch not found\<close> when the batch does not exist; else 400
  \<^verbatim>\<open>Batch is full\<close> when the batch's enrollment count is at least its
  \<^verbatim>\<open>max_participants\<close>; else 400 \<^verbatim>\<open>Already enrolled\<close> when the (user, batch) pair has
  an enrollment; else exactly one enrollment row is appended and the answer is 200. In
  particular a count equal to the capacity gives \<^verbatim>\<open>Batch is full\<close>, and a user not yet
  enrolled who enrolls at a count one below the capacity succeeds and brings the count to
  the capacity.
\<close>

theorem enroll_check_order:
  "enroll None None None now d user batchId =
     (if \<not> batch_exists d batchId
      then (d, Json 404 (ErrorBody ''Batch not found''))
      else if int (current_count d batchId) \<ge> max_participants_of d batchId
      then (d, Json 400 (ErrorBody ''Batch is full''))
      else if enrolled d (tok_id user) batchId
      then (d, Json 400 (ErrorBody ''Already enrolled''))
      else (d\<lparr>enrollments := enrollments d @
              [\<lparr>e_id = next_rowid (map e_id (enrollments d)), e_user_id = tok_id user,
                e_batch_id = batchId, e_enrolled_at = now\<rparr>]\<rparr>,
            Json 200 (MessageBody ''Enrolled successfully''))) \<and>
   (batch_exists d batchId \<and>
    int (current_count d batchId) = max_participants_of d batchId \<longrightarrow>
      enroll None None None now d user batchId = (d, Json 400 (ErrorBody ''Batch is full''))) \<and>
   (batch_exists d batchId \<and>
    int (current_count d batchId) = max_participants_of d batchId - 1 \<and>
    \<not> enrolled d (tok_id user) batchId \<longrightarrow>
      snd (enroll None None None now d user batchId) =
        Json 200 (MessageBody ''Enrolled successfully'') \<and>
      length (enrollments (fst (enroll None None None now d user batchId))) =
        length (enrollments d) + 1 \<and>
      int (current_count (fst (enroll None None None now d user batchId)) batchId) =
        max_participants_of (fst (enroll None None None now d user batchId)) batchId)"
proof -
  have eq: "enroll None None None now d user batchId =
     (if \<not> batch_exists d batchId
      then (d, Json 404 (ErrorBody ''Batch not found''))
      else if int (current_count d batchId) \<ge> max_participants_of d batchId
      then (d, Json 400 (ErrorBody ''Batch is full''))
      else if enrolled d (tok_id user) batchId
      then (d, Json 400 (ErrorBody ''Already enrolled''))
      else (d\<lparr>enrollments := enrollments d @
              [\<lparr>e_id = next_rowid (map e_id (enrollments d)), e_user_id = tok_id user,
                e_batch_id = batchId, e_enrolled_at = now\<rparr>]\<rparr>,
            Json 200 (MessageBody ''Enrolled successfully'')))"
    by (auto simp: enroll_def select_batch_def count_enrollments_def insert_enrollment_def
        batch_exists_def current_count_def max_participants_of_def enrolled_def
        unique_msg_includes split: option.splits)
  have full: "batch_exists d batchId \<and>
    int (current_count d batchId) = max_participants_of d batchId \<longrightarrow>
      enroll None None None now d user batchId = (d, Json 400 (ErrorBody ''Batch is full''))"
    by (simp add: eq)
  have last: "batch_exists d batchId \<and>
    int (current_count d batchId) = max_participants_of d batchId - 1 \<and>
    \<not> enrolled d (tok_id user) batchId \<longrightarrow>
      snd (enroll None None None now d user batchId) =
        Json 200 (MessageBody ''Enrolled successfully'') \<and>
      length (enrollments (fst (enroll None None None now d user batchId))) =
        length (enrollments d) + 1 \<and>
      int (current_count (fst (enroll None None None now d user batchId)) batchId) =
        max_participants_of (fst (enroll None None None now d user batchId)) batchId"
    by (simp add: eq) (simp add: current_count_def max_participants_of_def)
  from eq full last show ?thesis by blast
qed

theorem enroll_check_order_witness:
  "batch_exists one_enrolled 1 \<and>
   int (current_count one_enrolled 1) = max_participants_of one_enrolled 1 - 1 \<and>
   \<not> enrolled one_enrolled (tok_id bob) 1 \<and>
   enroll None None None 11 one_enrolled bob 1 =
     (batch_filled, Json 200 (MessageBody ''Enrolled successfully'')) \<and>
   int (current_count batch_filled 1) = max_participants_of batch_filled 1 \<and>
   enrolled batch_filled (tok_id alice) 1 \<and>
   enroll None None None 12 batch_filled alice 1 =
     (batch_filled, Json 400 (ErrorBody ''Batch is full''))"
  using enroll_check_order [of 11 one_enrolled bob 1]
    enroll_check_order [of 12 batch_filled alice 1]
  by (simp add: batch_exists_def current_count_def max_participants_of_def enrolled_def
      one_enrolled_def batch_filled_def empty_ledgers_def small_batch_def
      alice_enrollment_def bob_enrollment_def alice_def bob_def next_rowid_def)

section \<open>Report submission\<close>

text \<open>
  Claim C2. Let the report ledger hold at most one row per (user, batch, date), let the
  user be enrolled in the batch, and let two requests with all required fields name the
  same batch and date. After the first and then the second is submitted (no storage call
  failing), the ledger holds exactly one row for the triple after each; the row after the
  second carries the second request's tasks, challenges, hours and notes, its
  \<^verbatim>\<open>updated_at\<close> is the clock reading of the second submission, and its
  \<^verbatim>\<open>created_at\<close> and \<^verbatim>\<open>id\<close> are those of the row after the first. The ledger still
  holds at most one row per triple, and so it does after any run of requests, whatever
  their faults.
\<close>

theorem resubmission_updates_single_row:
  "reports_unique d \<Longrightarrow> enrolled d (tok_id user) b \<Longrightarrow>
   \<not> required_fields_missing req1 \<Longrightarrow> \<not> required_fields_missing req2 \<Longrightarrow>
   q_batch_id req1 = Some b \<Longrightarrow> q_batch_id req2 = Some b \<Longrightarrow>
   q_report_date req1 = Some dt \<Longrightarrow> q_report_date req2 = Some dt \<Longrightarrow>
   d1 = fst (submit_report None None t1 d user req1) \<Longrightarrow>
   d2 = fst (submit_report None None t2 d1 user req2) \<Longrightarrow>
   (\<exists>row1 row2.
      reports_for d1 (tok_id user) b dt = [row1] \<and>
      reports_for d2 (tok_id user) b dt = [row2] \<and>
      Some (r_tasks_completed row2) = q_tasks_completed req2 \<and>
      r_challenges row2 = q_challenges req2 \<and>
      Some (r_hours_worked row2) = q_hours_worked req2 \<and>
      r_notes row2 = q_notes req2 \<and>
      r_updated_at row2 = t2 \<and>
      r_created_at row2 = r_created_at row1 \<and>
      r_id row2 = r_id row1) \<and>
   reports_unique d2 \<and>
   reports_unique (run d reqs)"
proof -
  assume uniq: "reports_unique d" and enr: "enrolled d (tok_id user) b"
    and v1: "\<not> required_fields_missing req1" and v2: "\<not> required_fields_missing req2"
    and b1: "q_batch_id req1 = Some b" and b2: "q_batch_id req2 = Some b"
    and dt1: "q_report_date req1 = Some dt" and dt2: "q_report_date req2 = Some dt"
    and d1: "d1 = fst (submit_report None None t1 d user req1)"
    and d2: "d2 = fst (submit_report None None t2 d1 user req2)"
  from submit_report_stored[OF v1 b1 dt1 enr, of t1]
  obtain ta ha where up1:
    "upsert_report None t1 d (tok_id user) b dt ta (q_challenges req1) ha (q_notes req1) = Inr d1"
    using d1 by auto
  have uniq1: "reports_unique d1" using upsert_report_unique[OF uniq up1] .
  have enr1: "enrolled d1 (tok_id user) b"
    using upsert_report_others[OF up1] enr by (simp add: enrolled_def)
  from submit_report_stored[OF v2 b2 dt2 enr1, of t2]
  obtain tb hb where f2: "q_tasks_completed req2 = Some tb" "q_hours_worked req2 = Some hb"
    and up2:
    "upsert_report None t2 d1 (tok_id user) b dt tb (q_challenges req2) hb (q_notes req2) = Inr d2"
    using d2 by auto
  from upsert_report_rows[OF uniq up1] obtain row1 where
    r1: "reports_for d1 (tok_id user) b dt = [row1]" by blast
  from upsert_report_rows[OF uniq1 up2] r1 f2 have
    "\<exists>row2. reports_for d2 (tok_id user) b dt = [row2] \<and>
      Some (r_tasks_completed row2) = q_tasks_completed req2 \<and>
      r_challenges row2 = q_challenges req2 \<and>
      Some (r_hours_worked row2) = q_hours_worked req2 \<and>
      r_notes row2 = q_notes req2 \<and>
      r_updated_at row2 = t2 \<and>
      r_created_at row2 = r_created_at row1 \<and>
      r_id row2 = r_id row1"
    by auto
  with r1 upsert_report_unique[OF uniq1 up2] run_unique[OF uniq, of reqs]
  show ?thesis by blast
qed

theorem resubmission_updates_single_row_witness:
  "reports_unique one_enrolled \<and> enrolled one_enrolled (tok_id alice) 1 \<and>
   \<not> required_fields_missing first_report_req \<and>
   \<not> required_fields_missing second_report_req \<and>
   daily_reports (fst (submit_report None None 20 one_enrolled alice first_report_req)) =
     [\<lparr>r_id = 1, r_user_id = 2, r_batch_id = 1, r_report_date = ''2026-01-16'',
       r_tasks_completed = ''Read chapter 1'', r_challenges = None, r_hours_worked = 4,
       r_notes = None, r_created_at = 20, r_updated_at = 20\<rparr>] \<and>
   daily_reports
     (fst (submit_report None None 30
        (fst (submit_report None None 20 one_enrolled alice first_report_req))
        alice second_report_req)) =
     [\<lparr>r_id = 1, r_user_id = 2, r_batch_id = 1, r_report_date = ''2026-01-16'',
       r_tasks_completed = ''Read chapters 1 and 2'', r_challenges = Some ''Closures'',
       r_hours_worked = 13 / 2, r_notes = Some ''resubmitted'', r_created_at = 20,
       r_updated_at = 30\<rparr>] \<and>
   reports_unique (run one_enrolled
     [SubmitReport None None 20 alice first_report_req,
      SubmitReport None None 30 alice second_report_req])"
  using resubmission_updates_single_row [of one_enrolled alice 1 first_report_req
      second_report_req "''2026-01-16''"
      "fst (submit_report None None 20 one_enrolled alice first_report_req)" 20
      "fst (submit_report None None 30
        (fst (submit_report None None 20 one_enrolled alice first_report_req))
        alice second_report_req)" 30
      "[SubmitReport None None 20 alice first_report_req,
        SubmitReport None None 30 alice second_report_req]"]
  by (simp add: reports_unique_def enrolled_def required_fields_missing_def falsy_num_def
      falsy_str_def one_enrolled_def empty_ledgers_def alice_enrollment_def alice_def
      first_report_req_def second_report_req_def submit_report_def select_enrollment_def
      upsert_report_def same_report_key_def next_rowid_def run_def report_key_def)

text \<open>
  Claim C3, as amended. A submit-report request naming a batch in which its user has no
  enrollment leaves the store as it is, under any faults; it is answered 403
  \<^verbatim>\<open>Not enrolled in this batch\<close> when it has all required fields, and 400
  \<^verbatim>\<open>Required fields missing\<close> when it has not (that test comes first). If every stored
  report belongs to an enrolled (user, batch) pair, then so it is after any run of
  requests.
\<close>

theorem unenrolled_report_rejected:
  "(\<not> enrolled d (tok_id user) b \<and> q_batch_id req = Some b \<longrightarrow>
      submit_report f1 f2 now d user req =
        (d, if required_fields_missing req
            then Json 400 (ErrorBody ''Required fields missing'')
            else Json 403 (ErrorBody ''Not enrolled in this batch''))) \<and>
   (reports_enrolled d \<longrightarrow> reports_enrolled (run d reqs))"
proof -
  have "submit_report f1 f2 now d user req =
        (d, if required_fields_missing req
            then Json 400 (ErrorBody ''Required fields missing'')
            else Json 403 (ErrorBody ''Not enrolled in this batch''))"
    if ne: "\<not> enrolled d (tok_id user) b" and b: "q_batch_id req = Some b"
  proof (cases "required_fields_missing req")
    case True
    then show ?thesis by (simp add: submit_report_missing)
  next
    case False
    have "select_enrollment f1 d (tok_id user) b = Inr (Some e) \<Longrightarrow> False" for e
      using select_enrollment_cases ne by blast
    then have "(case select_enrollment f1 d (tok_id user) b of
          Inl err \<Rightarrow> (d, Json 403 (ErrorBody ''Not enrolled in this batch''))
        | Inr None \<Rightarrow> (d, Json 403 (ErrorBody ''Not enrolled in this batch''))
        | Inr (Some enrollment) \<Rightarrow> g enrollment) =
          (d, Json 403 (ErrorBody ''Not enrolled in this batch'') :: unit response)" for g
      by (auto split: sum.splits option.splits)
    with submit_report_present[OF False, where d = d and user = user and now = now
      and ?f1.0 = f1 and ?f2.0 = f2] b False
    show ?thesis by auto
  qed
  then show ?thesis using run_enrolled by blast
qed

theorem unenrolled_report_rejected_witness:
  "\<not> enrolled one_enrolled (tok_id bob) 1 \<and> q_batch_id first_report_req = Some 1 \<and>
   submit_report None None 20 one_enrolled bob first_report_req =
     (one_enrolled, Json 403 (ErrorBody ''Not enrolled in this batch'')) \<and>
   reports_enrolled one_enrolled \<and>
   reports_enrolled (run one_enrolled
     [SubmitReport None None 20 bob first_report_req, Enroll None None None 21 bob 1,
      SubmitReport None None 22 bob first_report_req])"
  using unenrolled_report_rejected [of one_enrolled bob 1 first_report_req None None 20
      "[SubmitReport None None 20 bob first_report_req, Enroll None None None 21 bob 1,
        SubmitReport None None 22 bob first_report_req]"]
  by (simp add: enrolled_def one_enrolled_def empty_ledgers_def alice_enrollment_def bob_def
      first_report_req_def required_fields_missing_def falsy_num_def falsy_str_def
      reports_enrolled_def)

text \<open>
  Claim C3 as stated fails: Alice, not enrolled, submits a report without
  \<^verbatim>\<open>tasks_completed\<close> and is answered 400 \<^verbatim>\<open>Required fields missing\<close>, not 403.
\<close>

theorem unenrolled_report_counterexample:
  "\<not> enrolled empty_ledgers (tok_id alice) 1 \<and>
   q_batch_id (first_report_req\<lparr>q_tasks_completed := None\<rparr>) = Some 1 \<and>
   submit_report None None 20 empty_ledgers alice
       (first_report_req\<lparr>q_tasks_completed := None\<rparr>) =
     (empty_ledgers, Json 400 (ErrorBody ''Required fields missing''))"
  by (simp add: enrolled_def empty_ledgers_def alice_def first_report_req_def
      submit_report_def)

text \<open>
  Claim C4, as amended. A submit-report request without \<^verbatim>\<open>tasks_completed\<close> or without
  \<^verbatim>\<open>hours_worked\<close> is answered 400 \<^verbatim>\<open>Required fields missing\<close> and changes nothing.
  The sign of the hours is not tested: a request with all required fields and negative
  hours, from an enrolled user, is answered 200 and the row of its (user, batch, date)
  holds the negative hours.
\<close>

theorem absent_fields_rejected_sign_unchecked:
  "(q_tasks_completed req = None \<or> q_hours_worked req = None \<longrightarrow>
      submit_report f1 f2 now d user req =
        (d, Json 400 (ErrorBody ''Required fields missing''))) \<and>
   (\<not> required_fields_missing req \<and> q_batch_id req = Some b \<and>
    q_report_date req = Some dt \<and> q_hours_worked req = Some h \<and> h < 0 \<and>
    enrolled d (tok_id user) b \<and> reports_unique d \<longrightarrow>
      snd (submit_report None None now d user req) =
        Json 200 (MessageBody ''Report submitted successfully'') \<and>
      map r_hours_worked
        (reports_for (fst (submit_report None None now d user req)) (tok_id user) b dt) = [h])"
proof -
  have a: "q_tasks_completed req = None \<or> q_hours_worked req = None \<longrightarrow>
      submit_report f1 f2 now d user req =
        (d, Json 400 (ErrorBody ''Required fields missing''))"
    by (auto simp: submit_report_def split: option.splits)
  have b: "snd (submit_report None None now d user req) =
        Json 200 (MessageBody ''Report submitted successfully'') \<and>
      map r_hours_worked
        (reports_for (fst (submit_report None None now d user req)) (tok_id user) b dt) = [h]"
    if v: "\<not> required_fields_missing req" and bb: "q_batch_id req = Some b"
      and dd: "q_report_date req = Some dt" and hh: "q_hours_worked req = Some h"
      and en: "enrolled d (tok_id user) b" and u: "reports_unique d"
  proof -
    from submit_report_stored[OF v bb dd en, of now] hh
    obtain t d' where up:
      "upsert_report None now d (tok_id user) b dt t (q_challenges req) h (q_notes req) = Inr d'"
      and eq: "submit_report None None now d user req =
         (d', Json 200 (MessageBody ''Report submitted successfully''))"
      by auto
    from upsert_report_rows[OF u up] eq show ?thesis by auto
  qed
  from a b show ?thesis by blast
qed

theorem absent_fields_rejected_sign_unchecked_witness:
  "q_hours_worked (first_report_req\<lparr>q_hours_worked := None\<rparr>) = None \<and>
   submit_report None None 20 one_enrolled alice
       (first_report_req\<lparr>q_hours_worked := None\<rparr>) =
     (one_enrolled, Json 400 (ErrorBody ''Required fields missing'')) \<and>
   \<not> required_fields_missing (first_report_req\<lparr>q_hours_worked := Some (- 3)\<rparr>) \<and>
   enrolled one_enrolled (tok_id alice) 1 \<and> reports_unique one_enrolled \<and>
   map r_hours_worked (reports_for
       (fst (submit_report None None 20 one_enrolled alice
          (first_report_req\<lparr>q_hours_worked := Some (- 3)\<rparr>))) (tok_id alice) 1
       ''2026-01-16'') = [- 3]"
  using absent_fields_rejected_sign_unchecked [of
      "first_report_req\<lparr>q_hours_worked := None\<rparr>" None None 20 one_enrolled alice]
    absent_fields_rejected_sign_unchecked [of
      "first_report_req\<lparr>q_hours_worked := Some (- 3)\<rparr>" None None 20 one_enrolled alice
      1 "''2026-01-16''" "- 3"]
  by (simp add: first_report_req_def required_fields_missing_def falsy_num_def falsy_str_def
      enrolled_def reports_unique_def one_enrolled_def empty_ledgers_def
      alice_enrollment_def alice_def)

text \<open>
  Claim C4 as stated fails: Alice, enrolled, submits \<open>- 3\<close> hours and the row is stored.
\<close>

theorem negative_hours_counterexample:
  "submit_report None None 20 one_enrolled alice
       (first_report_req\<lparr>q_hours_worked := Some (- 3)\<rparr>) =
     (one_enrolled\<lparr>daily_reports :=
        [\<lparr>r_id = 1, r_user_id = 2, r_batch_id = 1, r_report_date = ''2026-01-16'',
          r_tasks_completed = ''Read chapter 1'', r_challenges = None,
          r_hours_worked = - 3, r_notes = None, r_created_at = 20, r_updated_at = 20\<rparr>]\<rparr>,
      Json 200 (MessageBody ''Report submitted successfully''))"
  by (simp add: first_report_req_def one_enrolled_def empty_ledgers_def
      alice_enrollment_def alice_def submit_report_def select_enrollment_def
      upsert_report_def same_report_key_def next_rowid_def)



section \<open>Report queries\<close>

lemma report_filter_student:
  "tok_role user = Student \<Longrightarrow> report_filter user q r \<Longrightarrow> r_user_id r = tok_id user"
  by (simp add: report_filter_def)

lemma report_filter_user_id_ignored:
  "tok_role user = Student \<Longrightarrow>
   report_filter user (q\<lparr>f_user_id := uf\<rparr>) = report_filter user q"
  by (auto simp: report_filter_def fun_eq_iff split: option.splits)

lemma join_report_row: "v \<in> set (join_report d r) \<Longrightarrow> v_report v = r"
  by (auto simp: join_report_def)

lemma select_reports_rows:
  "select_reports fault d user q = Inr vs \<Longrightarrow> v \<in> set vs \<Longrightarrow>
   report_filter user q (v_report v) \<and> v_report v \<in> set (daily_reports d)"
  by (auto simp: select_reports_def sql_limit_def split: option.splits if_splits
      dest!: in_set_takeD join_report_row)

text \<open>
  Claim C5. When the caller's role is student, every report in the answer to a
  query-reports request has the caller's id as its \<^verbatim>\<open>user_id\<close>, and the answer is the
  same whatever \<^verbatim>\<open>user_id\<close> filter the request carries.
\<close>

theorem student_sees_own_reports:
  "tok_role user = Student \<Longrightarrow>
   (\<forall>v \<in> set (reports_of (get_reports fault d user q)).
      r_user_id (v_report v) = tok_id user) \<and>
   get_reports fault d user (q\<lparr>f_user_id := uf\<rparr>) = get_reports fault d user q"
proof -
  assume st: "tok_role user = Student"
  have own: "\<forall>v \<in> set (reports_of (get_reports fault d user q)).
      r_user_id (v_report v) = tok_id user"
  proof (cases "select_reports fault d user q")
    case (Inl a)
    then show ?thesis by (simp add: get_reports_def)
  next
    case (Inr vs)
    then show ?thesis
      using select_reports_rows[OF Inr] report_filter_student[OF st]
      by (auto simp: get_reports_def)
  qed
  have "select_reports fault d user (q\<lparr>f_user_id := uf\<rparr>) = select_reports fault d user q"
    by (cases fault) (simp_all add: select_reports_def report_filter_user_id_ignored[OF st])
  then have "get_reports fault d user (q\<lparr>f_user_id := uf\<rparr>) = get_reports fault d user q"
    by (simp add: get_reports_def)
  with own show ?thesis by blast
qed

theorem student_sees_own_reports_witness:
  "tok_role alice = Student \<and>
   get_reports None with_reports alice bobs_reports_query =
     Json 200 (Payload [\<lparr>v_report = alice_report, v_user_name = ''Alice'',
        v_username = ''alice'', v_batch_name = ''Web Development Fundamentals''\<rparr>]) \<and>
   get_reports None with_reports alice (bobs_reports_query\<lparr>f_user_id := Some 2\<rparr>) =
     get_reports None with_reports alice bobs_reports_query"
  using student_sees_own_reports [of alice None with_reports bobs_reports_query "Some 2"]
  by (simp add: alice_def get_reports_def select_reports_def with_reports_def
      batch_filled_def empty_ledgers_def bobs_reports_query_def report_filter_def
      alice_report_def bob_report_def join_report_def sql_limit_def
      admin_row_def alice_row_def bob_row_def carol_row_def small_batch_def)

section \<open>Storage failures\<close>

lemma select_batch_found:
  "batch_exists d batchId \<Longrightarrow>
   \<exists>batch. select_batch None d batchId = Inr (Some batch) \<and>
     b_max_participants batch = max_participants_of d batchId"
  by (auto simp: batch_exists_def select_batch_def max_participants_of_def)




text \<open>
  When the count query of enroll fails, the callback's read of \<^verbatim>\<open>result.count\<close> throws
  and no response is sent.
\<close>

lemma enroll_count_failure_uncaught:
  "batch_exists d batchId \<Longrightarrow>
   enroll None (Some e) f3 now d user batchId = (d, UncaughtTypeError)"
  using select_batch_found[of d batchId]
  by (auto simp: enroll_def count_enrollments_def)

section \<open>Derived statistics: properties\<close>



lemma student_insight_tier:
  "engagementLevel (student_insight st) =
     (if totalReports (student_insight st) \<ge> 15 then ''High''
      else if totalReports (student_insight st) \<ge> 10 then ''Medium'' else ''Low'') \<and>
   needsAttention (student_insight st) = (totalReports (student_insight st) < 5)"
  by (simp add: student_insight_def)

lemma enrollment_filter_le1:
  "enrollments_unique d \<Longrightarrow>
   length (filter (\<lambda>e. e_user_id e = u \<and> e_batch_id e = b) (enrollments d)) \<le> Suc 0"
  using distinct_map_filter_le1[of "\<lambda>e. (e_user_id e, e_batch_id e)" "enrollments d" "(u, b)"]
  by (simp add: enrollments_unique_def)

lemma select_class_stats_count:
  assumes "select_class_stats fault d batchId = Inr sts" and "st \<in> set sts"
    and "enrollments_unique d"
  shows "s_total_reports st = report_count d (s_id st) batchId"
proof -
  from assms(1,2) obtain u where u: "u \<in> set (users d)"
    and ne: "filter (\<lambda>e. e_user_id e = u_id u \<and> e_batch_id e = batchId) (enrollments d) \<noteq> []"
    and st: "st = \<lparr>s_id = u_id u, s_full_name = u_full_name u,
        s_total_reports =
          length (filter (\<lambda>e. e_user_id e = u_id u \<and> e_batch_id e = batchId) (enrollments d)) *
          length (filter (\<lambda>r. r_user_id r = u_id u \<and> r_batch_id r = batchId) (daily_reports d)),
        s_last_report =
          (case map r_report_date
                  (filter (\<lambda>r. r_user_id r = u_id u \<and> r_batch_id r = batchId) (daily_reports d)) of
             [] \<Rightarrow> None
           | x # xs \<Rightarrow> Some (fold max xs x))\<rparr>"
    by (auto simp: select_class_stats_def Let_def split: option.splits if_splits)
  from ne enrollment_filter_le1[OF assms(3), of "u_id u" batchId]
  have "length (filter (\<lambda>e. e_user_id e = u_id u \<and> e_batch_id e = batchId) (enrollments d)) = 1"
    by (cases "filter (\<lambda>e. e_user_id e = u_id u \<and> e_batch_id e = batchId) (enrollments d)") auto
  then show ?thesis by (simp add: st report_count_def)
qed

text \<open>
  Claim C8. Every student entry of a class-insights answer has engagement level
  \<^verbatim>\<open>High\<close> when its report count is at least 15, \<^verbatim>\<open>Medium\<close> when it is at least 10 and
  below 15, \<^verbatim>\<open>Low\<close> otherwise, and \<^verbatim>\<open>needsAttention\<close> exactly when the count is below 5;
  with one enrollment row per (user, batch) pair the count is the number of reports the
  student has stored for the batch. Exactly 15 reports give \<^verbatim>\<open>High\<close>, 14 \<^verbatim>\<open>Medium\<close>, 9
  \<^verbatim>\<open>Low\<close> without \<^verbatim>\<open>needsAttention\<close>, and 4 \<^verbatim>\<open>Low\<close> with \<^verbatim>\<open>needsAttention\<close>.
\<close>

theorem engagement_tiers:
  "(\<forall>s \<in> set (insights_of (class_insights fault d user batchId)).
      engagementLevel s =
        (if totalReports s \<ge> 15 then ''High''
         else if totalReports s \<ge> 10 then ''Medium'' else ''Low'') \<and>
      needsAttention s = (totalReports s < 5) \<and>
      (enrollments_unique d \<longrightarrow> totalReports s = report_count d (studentId s) batchId)) \<and>
   engagementLevel (student_insight (st\<lparr>s_total_reports := 15\<rparr>)) = ''High'' \<and>
   engagementLevel (student_insight (st\<lparr>s_total_reports := 14\<rparr>)) = ''Medium'' \<and>
   engagementLevel (student_insight (st\<lparr>s_total_reports := 9\<rparr>)) = ''Low'' \<and>
   \<not> needsAttention (student_insight (st\<lparr>s_total_reports := 9\<rparr>)) \<and>
   engagementLevel (student_insight (st\<lparr>s_total_reports := 4\<rparr>)) = ''Low'' \<and>
   needsAttention (student_insight (st\<lparr>s_total_reports := 4\<rparr>))"
proof -
  have all: "engagementLevel s =
        (if totalReports s \<ge> 15 then ''High''
         else if totalReports s \<ge> 10 then ''Medium'' else ''Low'') \<and>
      needsAttention s = (totalReports s < 5) \<and>
      (enrollments_unique d \<longrightarrow> totalReports s = report_count d (studentId s) batchId)"
    if s: "s \<in> set (insights_of (class_insights fault d user batchId))" for s
  proof (cases "select_class_stats fault d batchId")
    case (Inl a)
    with s show ?thesis by (simp add: class_insights_def split: if_splits)
  next
    case (Inr sts)
    with s obtain x where x: "x \<in> set sts" and sx: "s = student_insight x"
      by (auto simp: class_insights_def Let_def split: if_splits)
    have "enrollments_unique d \<longrightarrow> totalReports s = report_count d (studentId s) batchId"
      using select_class_stats_count[OF Inr x] by (simp add: sx student_insight_def)
    with student_insight_tier[of x] show ?thesis by (simp add: sx)
  qed
  have "engagementLevel (student_insight (st\<lparr>s_total_reports := 15\<rparr>)) = ''High''"
    "engagementLevel (student_insight (st\<lparr>s_total_reports := 14\<rparr>)) = ''Medium''"
    "engagementLevel (student_insight (st\<lparr>s_total_reports := 9\<rparr>)) = ''Low''"
    "\<not> needsAttention (student_insight (st\<lparr>s_total_reports := 9\<rparr>))"
    "engagementLevel (student_insight (st\<lparr>s_total_reports := 4\<rparr>)) = ''Low''"
    "needsAttention (student_insight (st\<lparr>s_total_reports := 4\<rparr>))"
    by (simp_all add: student_insight_def)
  with all show ?thesis by blast
qed

theorem engagement_tiers_witness:
  "enrollments_unique with_reports \<and>
   insights_of (class_insights None with_reports carol 1) =
     [\<lparr>studentId = 2, studentName = ''Alice'', totalReports = 1,
       lastReportDate = Some ''2026-01-16'', engagementLevel = ''Low'',
       needsAttention = True\<rparr>,
      \<lparr>studentId = 3, studentName = ''Bob'', totalReports = 1,
       lastReportDate = Some ''2026-01-17'', engagementLevel = ''Low'',
       needsAttention = True\<rparr>] \<and>
   report_count with_reports 2 1 = 1"
  using engagement_tiers [of None with_reports carol 1]
  by (simp add: enrollments_unique_def with_reports_def batch_filled_def empty_ledgers_def
      alice_enrollment_def bob_enrollment_def class_insights_def carol_def
      select_class_stats_def admin_row_def alice_row_def bob_row_def carol_row_def
      alice_report_def bob_report_def student_insight_def report_count_def)

lemma toFixed0_near: "\<bar>real_of_int (toFixed0 x) - x\<bar> \<le> 1 / 2"
proof (cases "x < 0")
  case True
  define n where "n = \<lfloor>- x + 1 / 2\<rfloor>"
  have "real_of_int n \<le> - x + 1 / 2" and "- x + 1 / 2 < real_of_int n + 1"
    unfolding n_def by linarith+
  then have "\<bar>real_of_int (- n) - x\<bar> \<le> 1 / 2"
    unfolding abs_le_iff by simp
  moreover have "toFixed0 x = - n"
    using True by (simp add: toFixed0_def n_def)
  ultimately show ?thesis by (simp only:)
next
  case False
  define n where "n = \<lfloor>x + 1 / 2\<rfloor>"
  have "real_of_int n \<le> x + 1 / 2" and "x + 1 / 2 < real_of_int n + 1"
    unfolding n_def by linarith+
  then have "\<bar>real_of_int n - x\<bar> \<le> 1 / 2"
    unfolding abs_le_iff by linarith
  moreover have "toFixed0 x = n"
    using False by (simp add: toFixed0_def n_def)
  ultimately show ?thesis by (simp only:)
qed

lemma days_between:
  "\<lfloor>(86400000 * real_of_int d2 - 86400000 * real_of_int d1) / 86400000\<rfloor> = d2 - d1"
proof -
  have "(86400000 * real_of_int d2 - 86400000 * real_of_int d1) / 86400000 =
        real_of_int (d2 - d1)"
    by simp
  then show ?thesis by (simp only: floor_of_int)
qed

text \<open>
  Claim C9, as amended. When the first and the last report date are non-empty strings
  whose time values are midnight UTC of day \<open>d1\<close> and of day \<open>d2\<close> (as for date-only
  strings), with \<open>d1 \<le> d2\<close>, the consistency is the string of an integer nearest to
  min(total_reports / days_span * 100, 100), where days_span = \<open>d2 - d1 + 1\<close> is the
  inclusive number of days from the first to the last date. Without a first report date
  it is the number 0. For first report 2026-01-01, last report 2026-01-10 and 5 reports
  it is 50.
\<close>

theorem consistency_rounded_ratio:
  "(f \<noteq> [] \<and> l \<noteq> [] \<and> Date f = Some (86400000 * d1) \<and>
    Date l = Some (86400000 * d2) \<and> d1 \<le> d2 \<longrightarrow>
      (\<exists>n. calculateConsistency Date cnt (Some f) (Some l) = ToFixed n \<and>
           \<bar>real_of_int n -
             min (real cnt / real_of_int (d2 - d1 + 1) * 100) 100\<bar> \<le> 1 / 2)) \<and>
   calculateConsistency Date cnt None l' = Number0 \<and>
   calculateConsistency iso_date_ms 5 (Some ''2026-01-01'') (Some ''2026-01-10'') =
     ToFixed 50"
proof -
  have a: "\<exists>n. calculateConsistency Date cnt (Some f) (Some l) = ToFixed n \<and>
           \<bar>real_of_int n -
             min (real cnt / real_of_int (d2 - d1 + 1) * 100) 100\<bar> \<le> 1 / 2"
    if "f \<noteq> []" "l \<noteq> []" "Date f = Some (86400000 * d1)"
      "Date l = Some (86400000 * d2)" "d1 \<le> d2"
  proof -
    have "calculateConsistency Date cnt (Some f) (Some l) =
        ToFixed (toFixed0 (min (real cnt / real_of_int (d2 - d1 + 1) * 100) 100))"
      using that by (simp add: calculateConsistency_def days_between Let_def)
    then show ?thesis using toFixed0_near by blast
  qed
  have b: "calculateConsistency Date cnt None l' = Number0"
    by (simp add: calculateConsistency_def)
  have c: "calculateConsistency iso_date_ms 5 (Some ''2026-01-01'') (Some ''2026-01-10'') =
     ToFixed 50"
    by (simp add: calculateConsistency_def iso_date_ms_def digit_def days_in_month_def
        leap_year_def days_from_civil_def toFixed0_def)
  from a b c show ?thesis by blast
qed

theorem consistency_rounded_ratio_witness:
  "iso_date_ms ''2026-01-01'' = Some (86400000 * 20454) \<and>
   iso_date_ms ''2026-01-10'' = Some (86400000 * 20463) \<and>
   calculateConsistency iso_date_ms 5 (Some ''2026-01-01'') (Some ''2026-01-10'') =
     ToFixed 50 \<and>
   min (real 5 / real_of_int (20463 - 20454 + 1) * 100) 100 = 50 \<and>
   progress_consistency iso_date_ms None with_reports 2 = Inr (ToFixed 100)"
  using consistency_rounded_ratio [of "''2026-01-01''" "''2026-01-10''" iso_date_ms 20454
      20463 5]
  by (simp add: iso_date_ms_def digit_def days_in_month_def leap_year_def
      days_from_civil_def progress_consistency_def select_progress_stats_def
      with_reports_def alice_report_def bob_report_def calculateConsistency_def
      toFixed0_def)

text \<open>
  Claim C9 as stated fails: 2 reports from 2026-01-01 to 2026-01-03 give 67, and
  min(2 / 3 * 100, 100) is not 67.
\<close>

theorem consistency_counterexample:
  "calculateConsistency iso_date_ms 2 (Some ''2026-01-01'') (Some ''2026-01-03'') =
     ToFixed 67 \<and>
   consistency_number
     (calculateConsistency iso_date_ms 2 (Some ''2026-01-01'') (Some ''2026-01-03'')) \<noteq>
     Some (min (2 / 3 * 100) 100)"
  by (simp add: calculateConsistency_def iso_date_ms_def digit_def days_in_month_def
      leap_year_def days_from_civil_def toFixed0_def)

end
